theory Spec2Isabelle
  imports Main "HOL-Library.Word"
begin

unbundle bit_operations_syntax

section \<open>Machine integers and assertion failures\<close>

type_synonym u8 = "8 word"
type_synonym u32 = "32 word"
type_synonym u64 = "64 word"

text \<open>
  The header uses \<^verbatim>\<open>assert\<close> for its preconditions. A violated assertion aborts the
  program; the model returns \<open>Inl AssertionFailed\<close> there and \<open>Inr\<close> the value otherwise.
\<close>

datatype failure = AssertionFailed

section \<open>Constants of the file format\<close>

text \<open>\<^verbatim>\<open>const static uint64_t MAGIC = 0x1F1903C103BC1FC6;\<close>\<close>

definition MAGIC :: u64 where
  "MAGIC = 0x1F1903C103BC1FC6"

text \<open>\<^verbatim>\<open>const static uint64_t DELTA_MAGIC = ~MAGIC;\<close>\<close>

definition DELTA_MAGIC :: u64 where
  "DELTA_MAGIC = NOT MAGIC"

text \<open>\<^verbatim>\<open>const static uint32_t BYTECODE_VERSION = 41;\<close>\<close>

definition BYTECODE_VERSION :: u32 where
  "BYTECODE_VERSION = 41"

datatype BytecodeForm = Execution | Delta

section \<open>Function headers\<close>

text \<open>
  \<^verbatim>\<open>union FunctionHeaderFlag { struct { bool strictMode : 1; bool hasExceptionHandler : 1;
  bool hasDebugInfo : 1; bool overflowed : 1; }; uint8_t flags; }\<close>.
  The union is the byte \<open>flags\<close>; the four one-bit members are read from it, the first
  declared member in the lowest bit. Its constructor stores \<open>flags = 0\<close>.
\<close>

type_synonym FunctionHeaderFlag = u8

definition FunctionHeaderFlag :: FunctionHeaderFlag where
  "FunctionHeaderFlag = 0"

definition strictMode :: "FunctionHeaderFlag \<Rightarrow> bool" where
  "strictMode f = bit f 0"

definition hasExceptionHandler :: "FunctionHeaderFlag \<Rightarrow> bool" where
  "hasExceptionHandler f = bit f 1"

definition hasDebugInfo :: "FunctionHeaderFlag \<Rightarrow> bool" where
  "hasDebugInfo f = bit f 2"

definition overflowed :: "FunctionHeaderFlag \<Rightarrow> bool" where
  "overflowed f = bit f 3"

text \<open>The assignment \<^verbatim>\<open>flags.overflowed = true\<close>.\<close>

definition set_overflowed :: "FunctionHeaderFlag \<Rightarrow> FunctionHeaderFlag" where
  "set_overflowed f = set_bit 3 f"

text \<open>
  \<^verbatim>\<open>struct FunctionHeader\<close>: every field of \<^verbatim>\<open>FUNC_HEADER_FIELDS\<close> at its API type, then
  the flags. Field names carry the prefix \<open>fh_\<close>, those of the compact record \<open>sfh_\<close>.
\<close>

record FunctionHeader =
  fh_offset :: u32
  fh_paramCount :: u32
  fh_bytecodeSizeInBytes :: u32
  fh_functionName :: u32
  fh_infoOffset :: u32
  fh_frameSize :: u32
  fh_environmentSize :: u32
  fh_highestReadCacheIndex :: u8
  fh_highestWriteCacheIndex :: u8
  fh_flags :: FunctionHeaderFlag

text \<open>
  The public constructor
  \<^verbatim>\<open>FunctionHeader(size, paramCount, frameSize, envSize, functionNameID, hiRCacheIndex,
  hiWCacheIndex)\<close>; \<^verbatim>\<open>flags{}\<close> runs the constructor of the union.
\<close>

definition FunctionHeader ::
  "u32 \<Rightarrow> u32 \<Rightarrow> u32 \<Rightarrow> u32 \<Rightarrow> u32 \<Rightarrow> u8 \<Rightarrow> u8 \<Rightarrow> FunctionHeader" where
  "FunctionHeader size' paramCount frameSize envSize functionNameID hiRCacheIndex hiWCacheIndex =
     \<lparr>fh_offset = 0,
      fh_paramCount = paramCount,
      fh_bytecodeSizeInBytes = size',
      fh_functionName = functionNameID,
      fh_infoOffset = 0,
      fh_frameSize = frameSize,
      fh_environmentSize = envSize,
      fh_highestReadCacheIndex = hiRCacheIndex,
      fh_highestWriteCacheIndex = hiWCacheIndex,
      fh_flags = FunctionHeaderFlag\<rparr>"

text \<open>
  \<^verbatim>\<open>struct SmallFuncHeader\<close>: every field at its bit width (25, 7, 15, 17, 25, 7, 8, 8, 8),
  then the flags. A store into a bit-field keeps the low bits (\<open>ucast\<close>).
\<close>

record SmallFuncHeader =
  sfh_offset :: "25 word"
  sfh_paramCount :: "7 word"
  sfh_bytecodeSizeInBytes :: "15 word"
  sfh_functionName :: "17 word"
  sfh_infoOffset :: "25 word"
  sfh_frameSize :: "7 word"
  sfh_environmentSize :: "8 word"
  sfh_highestReadCacheIndex :: "8 word"
  sfh_highestWriteCacheIndex :: "8 word"
  sfh_flags :: FunctionHeaderFlag

text \<open>
  \<^verbatim>\<open>void setLargeHeaderOffset(uint32_t largeHeaderOffset) { flags.overflowed = true;
  offset = largeHeaderOffset & 0xffff; infoOffset = largeHeaderOffset >> 16; }\<close>
\<close>

definition setLargeHeaderOffset :: "SmallFuncHeader \<Rightarrow> u32 \<Rightarrow> SmallFuncHeader" where
  "setLargeHeaderOffset s largeHeaderOffset =
     s\<lparr>sfh_flags := set_overflowed (sfh_flags s),
       sfh_offset := ucast (largeHeaderOffset AND 0xffff),
       sfh_infoOffset := ucast (drop_bit 16 largeHeaderOffset)\<rparr>"

text \<open>
  \<^verbatim>\<open>uint32_t getLargeHeaderOffset() const { assert(flags.overflowed);
  return (infoOffset << 16) | offset; }\<close>
  The two bit-fields are widened to 32 bits before the shift and the result is a
  \<^verbatim>\<open>uint32_t\<close>.
\<close>

definition getLargeHeaderOffset :: "SmallFuncHeader \<Rightarrow> failure + u32" where
  "getLargeHeaderOffset s =
     (if overflowed (sfh_flags s)
      then Inr (push_bit 16 (ucast (sfh_infoOffset s)) OR ucast (sfh_offset s))
      else Inl AssertionFailed)"

text \<open>The record after \<^verbatim>\<open>std::memset(this, 0, sizeof(SmallFuncHeader))\<close>.\<close>

definition zeroedSmallFuncHeader :: SmallFuncHeader where
  "zeroedSmallFuncHeader =
     \<lparr>sfh_offset = 0, sfh_paramCount = 0, sfh_bytecodeSizeInBytes = 0, sfh_functionName = 0,
      sfh_infoOffset = 0, sfh_frameSize = 0, sfh_environmentSize = 0,
      sfh_highestReadCacheIndex = 0, sfh_highestWriteCacheIndex = 0, sfh_flags = 0\<rparr>"

text \<open>
  The constructor \<^verbatim>\<open>SmallFuncHeader(const FunctionHeader &large)\<close>. After the memset and
  \<^verbatim>\<open>flags = large.flags\<close>, the macro \<^verbatim>\<open>CHECK_COPY_FIELD\<close> is expanded once for each field,
  in the order of \<^verbatim>\<open>FUNC_HEADER_FIELDS\<close>:
  \<^verbatim>\<open>if (large.name > (1U << bits) - 1) { setLargeHeaderOffset(large.infoOffset); return; }
  name = large.name;\<close>
  The comparison is made at 32 bits (a \<^verbatim>\<open>uint8_t\<close> field is widened first). The fields
  copied before a failing check stay in the record. The last statement is
  \<^verbatim>\<open>assert(!flags.overflowed)\<close>.
\<close>

definition SmallFuncHeader :: "FunctionHeader \<Rightarrow> failure + SmallFuncHeader" where
  "SmallFuncHeader large =
    (let s0 = zeroedSmallFuncHeader\<lparr>sfh_flags := fh_flags large\<rparr> in
     if fh_offset large > push_bit 25 1 - 1
     then Inr (setLargeHeaderOffset s0 (fh_infoOffset large)) else
     let s1 = s0\<lparr>sfh_offset := ucast (fh_offset large)\<rparr> in
     if fh_paramCount large > push_bit 7 1 - 1
     then Inr (setLargeHeaderOffset s1 (fh_infoOffset large)) else
     let s2 = s1\<lparr>sfh_paramCount := ucast (fh_paramCount large)\<rparr> in
     if fh_bytecodeSizeInBytes large > push_bit 15 1 - 1
     then Inr (setLargeHeaderOffset s2 (fh_infoOffset large)) else
     let s3 = s2\<lparr>sfh_bytecodeSizeInBytes := ucast (fh_bytecodeSizeInBytes large)\<rparr> in
     if fh_functionName large > push_bit 17 1 - 1
     then Inr (setLargeHeaderOffset s3 (fh_infoOffset large)) else
     let s4 = s3\<lparr>sfh_functionName := ucast (fh_functionName large)\<rparr> in
     if fh_infoOffset large > push_bit 25 1 - 1
     then Inr (setLargeHeaderOffset s4 (fh_infoOffset large)) else
     let s5 = s4\<lparr>sfh_infoOffset := ucast (fh_infoOffset large)\<rparr> in
     if fh_frameSize large > push_bit 7 1 - 1
     then Inr (setLargeHeaderOffset s5 (fh_infoOffset large)) else
     let s6 = s5\<lparr>sfh_frameSize := ucast (fh_frameSize large)\<rparr> in
     if fh_environmentSize large > push_bit 8 1 - 1
     then Inr (setLargeHeaderOffset s6 (fh_infoOffset large)) else
     let s7 = s6\<lparr>sfh_environmentSize := ucast (fh_environmentSize large)\<rparr> in
     if (ucast (fh_highestReadCacheIndex large) :: u32) > push_bit 8 1 - 1
     then Inr (setLargeHeaderOffset s7 (fh_infoOffset large)) else
     let s8 = s7\<lparr>sfh_highestReadCacheIndex := fh_highestReadCacheIndex large\<rparr> in
     if (ucast (fh_highestWriteCacheIndex large) :: u32) > push_bit 8 1 - 1
     then Inr (setLargeHeaderOffset s8 (fh_infoOffset large)) else
     let s9 = s8\<lparr>sfh_highestWriteCacheIndex := fh_highestWriteCacheIndex large\<rparr> in
     if overflowed (sfh_flags s9) then Inl AssertionFailed else Inr s9)"

text \<open>
  The condition under which no expansion of \<^verbatim>\<open>CHECK_COPY_FIELD\<close> returns early: every
  field is at most \<open>2 ^ bits - 1\<close>. The record \<open>copiedFields\<close> is what the nine
  assignments \<^verbatim>\<open>name = large.name\<close> leave behind in that case.
\<close>

definition fieldsFit :: "FunctionHeader \<Rightarrow> bool" where
  "fieldsFit large =
     (unat (fh_offset large) \<le> 2 ^ 25 - 1 \<and>
      unat (fh_paramCount large) \<le> 2 ^ 7 - 1 \<and>
      unat (fh_bytecodeSizeInBytes large) \<le> 2 ^ 15 - 1 \<and>
      unat (fh_functionName large) \<le> 2 ^ 17 - 1 \<and>
      unat (fh_infoOffset large) \<le> 2 ^ 25 - 1 \<and>
      unat (fh_frameSize large) \<le> 2 ^ 7 - 1 \<and>
      unat (fh_environmentSize large) \<le> 2 ^ 8 - 1 \<and>
      unat (fh_highestReadCacheIndex large) \<le> 2 ^ 8 - 1 \<and>
      unat (fh_highestWriteCacheIndex large) \<le> 2 ^ 8 - 1)"

definition copiedFields :: "FunctionHeader \<Rightarrow> SmallFuncHeader" where
  "copiedFields large =
     \<lparr>sfh_offset = ucast (fh_offset large),
      sfh_paramCount = ucast (fh_paramCount large),
      sfh_bytecodeSizeInBytes = ucast (fh_bytecodeSizeInBytes large),
      sfh_functionName = ucast (fh_functionName large),
      sfh_infoOffset = ucast (fh_infoOffset large),
      sfh_frameSize = ucast (fh_frameSize large),
      sfh_environmentSize = ucast (fh_environmentSize large),
      sfh_highestReadCacheIndex = fh_highestReadCacheIndex large,
      sfh_highestWriteCacheIndex = fh_highestWriteCacheIndex large,
      sfh_flags = fh_flags large\<rparr>"

text \<open>Two concrete logical headers: one with every field at its largest compact value
  and three flags set, one whose bytecode size needs 16 bits.\<close>

definition widestCompactHeader :: FunctionHeader where
  "widestCompactHeader =
     \<lparr>fh_offset = 33554431, fh_paramCount = 127, fh_bytecodeSizeInBytes = 32767,
      fh_functionName = 131071, fh_infoOffset = 33554431, fh_frameSize = 127,
      fh_environmentSize = 255, fh_highestReadCacheIndex = 255,
      fh_highestWriteCacheIndex = 255, fh_flags = 7\<rparr>"

definition oversizedHeader :: FunctionHeader where
  "oversizedHeader =
     \<lparr>fh_offset = 16, fh_paramCount = 2, fh_bytecodeSizeInBytes = 32768,
      fh_functionName = 5, fh_infoOffset = 0xDEADBEEF, fh_frameSize = 3,
      fh_environmentSize = 0, fh_highestReadCacheIndex = 1,
      fh_highestWriteCacheIndex = 1, fh_flags = 1\<rparr>"

section \<open>String table entries\<close>

text \<open>
  \<^verbatim>\<open>StringTableEntry\<close> is declared in \<^verbatim>\<open>hermes/Support/StringTableEntry.h\<close>, which is
  not among the sources at hand. The constructor below reads an entry through four
  getters only; the record holds what they return: a 32-bit offset, a 32-bit length
  and two flags.
\<close>

record StringTableEntry =
  getOffset :: u32
  getLength :: u32
  isUTF16 :: bool
  isIdentifier :: bool

text \<open>
  \<^verbatim>\<open>struct SmallStringTableEntry { bool isUTF16 : 1; bool isIdentifier : 1;
  uint32_t offset : 22; uint32_t length : 8; ... }\<close>, field names with the prefix \<open>sste_\<close>.
\<close>

record SmallStringTableEntry =
  sste_isUTF16 :: bool
  sste_isIdentifier :: bool
  sste_offset :: "22 word"
  sste_length :: "8 word"

text \<open>\<^verbatim>\<open>static constexpr uint32_t INVALID_OFFSET = (1 << 22);\<close>\<close>

definition INVALID_OFFSET :: u32 where
  "INVALID_OFFSET = push_bit 22 1"

text \<open>\<^verbatim>\<open>static constexpr uint32_t INVALID_LENGTH = (1 << 8) - 1;\<close>\<close>

definition INVALID_LENGTH :: u32 where
  "INVALID_LENGTH = push_bit 8 1 - 1"

text \<open>\<^verbatim>\<open>bool isOverflowed() const { return length == INVALID_LENGTH; }\<close>\<close>

definition isOverflowed :: "SmallStringTableEntry \<Rightarrow> bool" where
  "isOverflowed s = (ucast (sste_length s) = INVALID_LENGTH)"

text \<open>
  The constructor
  \<^verbatim>\<open>SmallStringTableEntry(const StringTableEntry &entry, uint32_t overflowOffset)\<close>:
  the two flags are copied; if offset and length are both below their reserved values
  they are stored, else \<^verbatim>\<open>assert(overflowOffset < INVALID_OFFSET)\<close>, then
  \<^verbatim>\<open>offset = overflowOffset; length = INVALID_LENGTH;\<close>.
\<close>

definition SmallStringTableEntry ::
  "StringTableEntry \<Rightarrow> u32 \<Rightarrow> failure + SmallStringTableEntry" where
  "SmallStringTableEntry entry overflowOffset =
     (if getOffset entry < INVALID_OFFSET \<and> getLength entry < INVALID_LENGTH
      then Inr \<lparr>sste_isUTF16 = isUTF16 entry,
                sste_isIdentifier = isIdentifier entry,
                sste_offset = ucast (getOffset entry),
                sste_length = ucast (getLength entry)\<rparr>
      else if overflowOffset < INVALID_OFFSET
      then Inr \<lparr>sste_isUTF16 = isUTF16 entry,
                sste_isIdentifier = isIdentifier entry,
                sste_offset = ucast overflowOffset,
                sste_length = ucast INVALID_LENGTH\<rparr>
      else Inl AssertionFailed)"

text \<open>\<^verbatim>\<open>struct OverflowStringTableEntry { uint32_t offset; uint32_t length; ... }\<close>\<close>

record OverflowStringTableEntry =
  oste_offset :: u32
  oste_length :: u32

definition OverflowStringTableEntry :: "u32 \<Rightarrow> u32 \<Rightarrow> OverflowStringTableEntry" where
  "OverflowStringTableEntry offset' length' = \<lparr>oste_offset = offset', oste_length = length'\<rparr>"

text \<open>Two concrete entries: one that fits the compact record and one whose offset is
  the reserved value.\<close>

definition nearEntry :: StringTableEntry where
  "nearEntry = \<lparr>getOffset = 4194303, getLength = 254, isUTF16 = False, isIdentifier = True\<rparr>"

definition farEntry :: StringTableEntry where
  "farEntry = \<lparr>getOffset = 4194304, getLength = 5, isUTF16 = True, isIdentifier = False\<rparr>"

text \<open>An entry whose length is the reserved value.\<close>

definition longEntry :: StringTableEntry where
  "longEntry = \<lparr>getOffset = 0, getLength = 255, isUTF16 = False, isIdentifier = False\<rparr>"

section \<open>The file header\<close>

text \<open>
  \<^verbatim>\<open>union BytecodeOptions { struct { bool staticBuiltins : 1; }; uint8_t _flags;
  BytecodeOptions() : _flags(0) {} }\<close>
\<close>

type_synonym BytecodeOptions = u8

definition BytecodeOptions :: BytecodeOptions where
  "BytecodeOptions = 0"

definition staticBuiltins :: "BytecodeOptions \<Rightarrow> bool" where
  "staticBuiltins opts = bit opts 0"

text \<open>
  Modelled from the spec: \<^verbatim>\<open>SHA1_NUM_BYTES\<close> and the type \<^verbatim>\<open>SHA1\<close> are declared in
  \<^verbatim>\<open>hermes/Support/SHA1.h\<close>, which is not part of the sources at hand. The specification
  gives the source hash as 20 bytes; a digest is a sequence of bytes.
\<close>

definition SHA1_NUM_BYTES :: nat where
  "SHA1_NUM_BYTES = 20"

type_synonym SHA1 = "u8 list"

text \<open>
  \<^verbatim>\<open>struct BytecodeFileHeader\<close>, packed, fields with the prefix \<open>bfh_\<close>. The field
  \<^verbatim>\<open>int32_t cjsModuleCount\<close> is kept as its 32 bits and read with \<open>sint\<close>.
\<close>

record BytecodeFileHeader =
  bfh_magic :: u64
  bfh_version :: u32
  bfh_sourceHash :: "u8 list"
  bfh_fileLength :: u32
  bfh_globalCodeIndex :: u32
  bfh_functionCount :: u32
  bfh_stringCount :: u32
  bfh_identifierCount :: u32
  bfh_stringTableBytes :: u32
  bfh_stringStorageSize :: u32
  bfh_regExpCount :: u32
  bfh_regExpStorageSize :: u32
  bfh_arrayBufferSize :: u32
  bfh_objKeyBufferSize :: u32
  bfh_objValueBufferSize :: u32
  bfh_cjsModuleCount :: u32
  bfh_debugInfoOffset :: u32
  bfh_options :: BytecodeOptions
  bfh_padding :: "u8 list"

text \<open>
  The constructor. The member initialiser \<^verbatim>\<open>sourceHash()\<close> zeroes the array, the body
  runs \<^verbatim>\<open>std::copy(sourceHash.begin(), sourceHash.end(), this->sourceHash)\<close> and
  \<^verbatim>\<open>std::fill(padding, padding + sizeof(padding), 0)\<close> on \<^verbatim>\<open>uint8_t padding[7]\<close>.
\<close>

definition BytecodeFileHeader ::
  "u64 \<Rightarrow> u32 \<Rightarrow> SHA1 \<Rightarrow> u32 \<Rightarrow> u32 \<Rightarrow> u32 \<Rightarrow> u32 \<Rightarrow> u32 \<Rightarrow> u32 \<Rightarrow> u32 \<Rightarrow> u32 \<Rightarrow> u32 \<Rightarrow>
   u32 \<Rightarrow> u32 \<Rightarrow> u32 \<Rightarrow> u32 \<Rightarrow> u32 \<Rightarrow> BytecodeOptions \<Rightarrow> BytecodeFileHeader" where
  "BytecodeFileHeader magic version sourceHash fileLength globalCodeIndex functionCount
     stringCount identifierCount stringTableBytes stringStorageSize regExpCount
     regExpStorageSize arrayBufferSize objKeyBufferSize objValueBufferSize cjsModuleCount
     debugInfoOffset options =
     \<lparr>bfh_magic = magic,
      bfh_version = version,
      bfh_sourceHash = take SHA1_NUM_BYTES (sourceHash @ replicate SHA1_NUM_BYTES 0),
      bfh_fileLength = fileLength,
      bfh_globalCodeIndex = globalCodeIndex,
      bfh_functionCount = functionCount,
      bfh_stringCount = stringCount,
      bfh_identifierCount = identifierCount,
      bfh_stringTableBytes = stringTableBytes,
      bfh_stringStorageSize = stringStorageSize,
      bfh_regExpCount = regExpCount,
      bfh_regExpStorageSize = regExpStorageSize,
      bfh_arrayBufferSize = arrayBufferSize,
      bfh_objKeyBufferSize = objKeyBufferSize,
      bfh_objValueBufferSize = objValueBufferSize,
      bfh_cjsModuleCount = cjsModuleCount,
      bfh_debugInfoOffset = debugInfoOffset,
      bfh_options = options,
      bfh_padding = replicate 7 0\<rparr>"

subsection \<open>Sizes and bytes of the packed records\<close>

text \<open>
  The records stand between \<^verbatim>\<open>LLVM_PACKED_START\<close> and \<^verbatim>\<open>LLVM_PACKED_END\<close>: a record
  takes the sum of the sizes of its members, bit-fields side by side. The compact
  function header is four words of 32 bits (the comments of \<^verbatim>\<open>FUNC_HEADER_FIELDS\<close> name
  them), the flags being the last byte of the fourth.
\<close>

definition sizeof_BytecodeFileHeader :: nat where
  "sizeof_BytecodeFileHeader =
     8 + 4 + SHA1_NUM_BYTES + 4 + 4 + 4 + 4 + 4 + 4 + 4 + 4 + 4 + 4 + 4 + 4 + 4 + 4 + 1 + 7"

definition sizeof_SmallFuncHeader :: nat where
  "sizeof_SmallFuncHeader = ((25 + 7) + (15 + 17) + (25 + 7) + (8 + 8 + 8 + 8)) div 8"

definition sizeof_SmallStringTableEntry :: nat where
  "sizeof_SmallStringTableEntry = (1 + 1 + 22 + 8) div 8"

definition sizeof_OverflowStringTableEntry :: nat where
  "sizeof_OverflowStringTableEntry = 4 + 4"

text \<open>The bytes of an integer, least significant first (the byte order of the format).\<close>

definition bytes32 :: "u32 \<Rightarrow> u8 list" where
  "bytes32 w = [ucast w, ucast (drop_bit 8 w), ucast (drop_bit 16 w), ucast (drop_bit 24 w)]"

definition bytes64 :: "u64 \<Rightarrow> u8 list" where
  "bytes64 w = [ucast w, ucast (drop_bit 8 w), ucast (drop_bit 16 w), ucast (drop_bit 24 w),
                ucast (drop_bit 32 w), ucast (drop_bit 40 w), ucast (drop_bit 48 w),
                ucast (drop_bit 56 w)]"

text \<open>The bytes of a header, member after member in the order of declaration.\<close>

definition headerBytes :: "BytecodeFileHeader \<Rightarrow> u8 list" where
  "headerBytes h =
     bytes64 (bfh_magic h) @ bytes32 (bfh_version h) @ bfh_sourceHash h @
     bytes32 (bfh_fileLength h) @ bytes32 (bfh_globalCodeIndex h) @
     bytes32 (bfh_functionCount h) @ bytes32 (bfh_stringCount h) @
     bytes32 (bfh_identifierCount h) @ bytes32 (bfh_stringTableBytes h) @
     bytes32 (bfh_stringStorageSize h) @ bytes32 (bfh_regExpCount h) @
     bytes32 (bfh_regExpStorageSize h) @ bytes32 (bfh_arrayBufferSize h) @
     bytes32 (bfh_objKeyBufferSize h) @ bytes32 (bfh_objValueBufferSize h) @
     bytes32 (bfh_cjsModuleCount h) @ bytes32 (bfh_debugInfoOffset h) @
     [bfh_options h] @ bfh_padding h"

section \<open>Populating the fields from a buffer\<close>

text \<open>
  \<^verbatim>\<open>llvm::ArrayRef<T>\<close>: a pointer and a number of elements. The pointer is a byte offset
  into the buffer, \<open>None\<close> for the null pointer of a default-constructed reference.
\<close>

record ArrayRef =
  ar_data :: "nat option"
  ar_size :: nat

definition nullArrayRef :: ArrayRef where
  "nullArrayRef = \<lparr>ar_data = None, ar_size = 0\<rparr>"

text \<open>\<^verbatim>\<open>struct BytecodeFileFields\<close>, in the order of declaration.\<close>

record BytecodeFileFields =
  header :: "nat option"
  functionHeaders :: ArrayRef
  stringTableEntries :: ArrayRef
  identifierHashes :: ArrayRef
  stringTableOverflowEntries :: ArrayRef
  stringStorage :: ArrayRef
  arrayBuffer :: ArrayRef
  objKeyBuffer :: ArrayRef
  objValueBuffer :: ArrayRef
  regExpTable :: ArrayRef
  regExpStorage :: ArrayRef
  cjsModuleTable :: ArrayRef
  cjsModuleTableStatic :: ArrayRef

text \<open>The default member initialisers: a null header pointer and empty references.\<close>

definition nullFields :: BytecodeFileFields where
  "nullFields =
     \<lparr>header = None, functionHeaders = nullArrayRef, stringTableEntries = nullArrayRef,
      identifierHashes = nullArrayRef, stringTableOverflowEntries = nullArrayRef,
      stringStorage = nullArrayRef, arrayBuffer = nullArrayRef, objKeyBuffer = nullArrayRef,
      objValueBuffer = nullArrayRef, regExpTable = nullArrayRef, regExpStorage = nullArrayRef,
      cjsModuleTable = nullArrayRef, cjsModuleTableStatic = nullArrayRef\<rparr>"

text \<open>
  Modelled from the spec: the header file declares
  \<^verbatim>\<open>bool populateFromBuffer(Array<uint8_t> bytes, std::string *outError, BytecodeForm form)\<close>
  and its body is not part of the sources at hand. What follows is the population pass of
  sections 4.1, 4.6, 4.7, 6 and 7 of the specification:
  \<^item> the buffer must hold the fixed-size header, else the pass fails as truncated;
  \<^item> the header is read from the first bytes, integers least significant byte first;
  \<^item> the magic is compared with the constant of the expected form, then the version with
    \<^verbatim>\<open>BYTECODE_VERSION\<close>; a mismatch fails before anything else is looked at;
  \<^item> the sections are visited once in the canonical order; for each one the byte extent is
    computed from the count or size the header declares, checked against the bytes that
    remain, a view is stored and the cursor moves past it; the first section that does not
    fit ends the pass with a truncation error naming it;
  \<^item> the module table is the last section: a negative \<^verbatim>\<open>cjsModuleCount\<close> makes it an
    array of 32-bit function indices, the view \<^verbatim>\<open>cjsModuleTableStatic\<close>; otherwise an
    array of pairs of 32-bit values, the view \<^verbatim>\<open>cjsModuleTable\<close>.
  The result records the error (\<open>None\<close> when the function returns true), the fields as the
  pass left them, and every byte extent (start, number of bytes) the pass has read or
  made a view of. The specification gives neither an alignment rule nor the bit order
  of the bit-fields, so the pass pads nothing and decodes no entry of a section. The
  number of overflow entries is taken from \<^verbatim>\<open>stringTableBytes\<close>, which the header file
  documents as the bytes of the table entries including overflow; a header that
  declares fewer table bytes than its compact entries take is given an empty overflow
  table, it is not rejected. The size of a
  \<^verbatim>\<open>RegExpTableEntry\<close> (declared in \<^verbatim>\<open>hermes/Support/RegExpSerialization.h\<close>) is a
  parameter.
\<close>

datatype Section =
    SecHeader
  | SecFunctionHeaders
  | SecStringTableEntries
  | SecIdentifierHashes
  | SecStringTableOverflowEntries
  | SecStringStorage
  | SecArrayBuffer
  | SecObjKeyBuffer
  | SecObjValueBuffer
  | SecRegExpTable
  | SecRegExpStorage
  | SecCJSModuleTable
  | SecCJSModuleTableStatic

text \<open>
  Modelled from the spec: the reasons of a \<^verbatim>\<open>FormatError\<close>, section 7 of the
  specification. A truncation names the section that does not fit. The pass below
  produces the first three.
\<close>

datatype FormatError =
    MagicMismatch
  | VersionMismatch
  | TruncatedBuffer Section
  | InconsistentSentinel
  | InvalidOffsetReconstruction

text \<open>
  Modelled from the spec: what a call of \<^verbatim>\<open>populateFromBuffer\<close> leaves behind. \<open>outError\<close>
  is \<open>None\<close> when the function returns true.
\<close>

record PopulateResult =
  outError :: "FormatError option"
  outFields :: BytecodeFileFields
  extents :: "(nat \<times> nat) list"

text \<open>Modelled from the spec: the magic of a form (section 4.1, the body of
  \<^verbatim>\<open>populateFromBuffer\<close> being absent).\<close>

definition expectedMagic :: "BytecodeForm \<Rightarrow> u64" where
  "expectedMagic form = (case form of Execution \<Rightarrow> MAGIC | Delta \<Rightarrow> DELTA_MAGIC)"

text \<open>Modelled from the spec: integers of the file are little-endian (section 6).\<close>

definition le32 :: "u8 list \<Rightarrow> nat \<Rightarrow> u32" where
  "le32 bytes i =
     ucast (bytes ! i) OR push_bit 8 (ucast (bytes ! (i + 1))) OR
     push_bit 16 (ucast (bytes ! (i + 2))) OR push_bit 24 (ucast (bytes ! (i + 3)))"

definition le64 :: "u8 list \<Rightarrow> nat \<Rightarrow> u64" where
  "le64 bytes i =
     ucast (bytes ! i) OR push_bit 8 (ucast (bytes ! (i + 1))) OR
     push_bit 16 (ucast (bytes ! (i + 2))) OR push_bit 24 (ucast (bytes ! (i + 3))) OR
     push_bit 32 (ucast (bytes ! (i + 4))) OR push_bit 40 (ucast (bytes ! (i + 5))) OR
     push_bit 48 (ucast (bytes ! (i + 6))) OR push_bit 56 (ucast (bytes ! (i + 7)))"

text \<open>Modelled from the spec: reading the header from the first bytes (sections 4.1
  and 6); called only on a buffer of at least \<open>sizeof_BytecodeFileHeader\<close> bytes.\<close>

definition readHeader :: "u8 list \<Rightarrow> BytecodeFileHeader" where
  "readHeader bytes =
     \<lparr>bfh_magic = le64 bytes 0,
      bfh_version = le32 bytes 8,
      bfh_sourceHash = take SHA1_NUM_BYTES (drop 12 bytes),
      bfh_fileLength = le32 bytes 32,
      bfh_globalCodeIndex = le32 bytes 36,
      bfh_functionCount = le32 bytes 40,
      bfh_stringCount = le32 bytes 44,
      bfh_identifierCount = le32 bytes 48,
      bfh_stringTableBytes = le32 bytes 52,
      bfh_stringStorageSize = le32 bytes 56,
      bfh_regExpCount = le32 bytes 60,
      bfh_regExpStorageSize = le32 bytes 64,
      bfh_arrayBufferSize = le32 bytes 68,
      bfh_objKeyBufferSize = le32 bytes 72,
      bfh_objValueBufferSize = le32 bytes 76,
      bfh_cjsModuleCount = le32 bytes 80,
      bfh_debugInfoOffset = le32 bytes 84,
      bfh_options = bytes ! 88,
      bfh_padding = take 7 (drop 89 bytes)\<rparr>"

text \<open>The view of a section among the fields, read and written.\<close>

fun getView :: "Section \<Rightarrow> BytecodeFileFields \<Rightarrow> ArrayRef" where
  "getView SecHeader f = nullArrayRef"
| "getView SecFunctionHeaders f = functionHeaders f"
| "getView SecStringTableEntries f = stringTableEntries f"
| "getView SecIdentifierHashes f = identifierHashes f"
| "getView SecStringTableOverflowEntries f = stringTableOverflowEntries f"
| "getView SecStringStorage f = stringStorage f"
| "getView SecArrayBuffer f = arrayBuffer f"
| "getView SecObjKeyBuffer f = objKeyBuffer f"
| "getView SecObjValueBuffer f = objValueBuffer f"
| "getView SecRegExpTable f = regExpTable f"
| "getView SecRegExpStorage f = regExpStorage f"
| "getView SecCJSModuleTable f = cjsModuleTable f"
| "getView SecCJSModuleTableStatic f = cjsModuleTableStatic f"

fun setView :: "Section \<Rightarrow> ArrayRef \<Rightarrow> BytecodeFileFields \<Rightarrow> BytecodeFileFields" where
  "setView SecHeader v f = f"
| "setView SecFunctionHeaders v f = f\<lparr>functionHeaders := v\<rparr>"
| "setView SecStringTableEntries v f = f\<lparr>stringTableEntries := v\<rparr>"
| "setView SecIdentifierHashes v f = f\<lparr>identifierHashes := v\<rparr>"
| "setView SecStringTableOverflowEntries v f = f\<lparr>stringTableOverflowEntries := v\<rparr>"
| "setView SecStringStorage v f = f\<lparr>stringStorage := v\<rparr>"
| "setView SecArrayBuffer v f = f\<lparr>arrayBuffer := v\<rparr>"
| "setView SecObjKeyBuffer v f = f\<lparr>objKeyBuffer := v\<rparr>"
| "setView SecObjValueBuffer v f = f\<lparr>objValueBuffer := v\<rparr>"
| "setView SecRegExpTable v f = f\<lparr>regExpTable := v\<rparr>"
| "setView SecRegExpStorage v f = f\<lparr>regExpStorage := v\<rparr>"
| "setView SecCJSModuleTable v f = f\<lparr>cjsModuleTable := v\<rparr>"
| "setView SecCJSModuleTableStatic v f = f\<lparr>cjsModuleTableStatic := v\<rparr>"

text \<open>Modelled from the spec: the module table the header declares (section 4.6):
  section, bytes of an element, number of elements.\<close>

definition moduleTable :: "BytecodeFileHeader \<Rightarrow> Section \<times> nat \<times> nat" where
  "moduleTable h =
     (if sint (bfh_cjsModuleCount h) < 0
      then (SecCJSModuleTableStatic, 4, nat (- sint (bfh_cjsModuleCount h)))
      else (SecCJSModuleTable, 4 + 4, nat (sint (bfh_cjsModuleCount h))))"

text \<open>Modelled from the spec: the sections after the header in the canonical order
  (section 4.7), each with the bytes of an element and the number of elements the
  header declares.\<close>

definition sections :: "nat \<Rightarrow> BytecodeFileHeader \<Rightarrow> (Section \<times> nat \<times> nat) list" where
  "sections regExpEntryBytes h =
     [(SecFunctionHeaders, sizeof_SmallFuncHeader, unat (bfh_functionCount h)),
      (SecStringTableEntries, sizeof_SmallStringTableEntry, unat (bfh_stringCount h)),
      (SecIdentifierHashes, 4, unat (bfh_identifierCount h)),
      (SecStringTableOverflowEntries, sizeof_OverflowStringTableEntry,
         (unat (bfh_stringTableBytes h) - unat (bfh_stringCount h) * sizeof_SmallStringTableEntry)
           div sizeof_OverflowStringTableEntry),
      (SecStringStorage, 1, unat (bfh_stringStorageSize h)),
      (SecArrayBuffer, 1, unat (bfh_arrayBufferSize h)),
      (SecObjKeyBuffer, 1, unat (bfh_objKeyBufferSize h)),
      (SecObjValueBuffer, 1, unat (bfh_objValueBufferSize h)),
      (SecRegExpTable, regExpEntryBytes, unat (bfh_regExpCount h)),
      (SecRegExpStorage, 1, unat (bfh_regExpStorageSize h)),
      moduleTable h]"

text \<open>Modelled from the spec: the forward pass over the sections (section 4.7); \<open>n\<close>
  is the size of the buffer, \<open>pos\<close> the cursor. A section fits when its bytes are at
  most the bytes that remain.\<close>

fun visitSections ::
  "nat \<Rightarrow> (Section \<times> nat \<times> nat) list \<Rightarrow> nat \<Rightarrow> PopulateResult \<Rightarrow> PopulateResult" where
  "visitSections n [] pos r = r"
| "visitSections n ((sec, elemBytes, count) # rest) pos r =
     (if count * elemBytes \<le> n - pos
      then visitSections n rest (pos + count * elemBytes)
             (r\<lparr>outFields := setView sec \<lparr>ar_data = Some pos, ar_size = count\<rparr> (outFields r),
                extents := extents r @ [(pos, count * elemBytes)]\<rparr>)
      else r\<lparr>outError := Some (TruncatedBuffer sec)\<rparr>)"

text \<open>Modelled from the spec: \<^verbatim>\<open>populateFromBuffer\<close> itself, whose body is absent:
  size of the header, magic, version, then the sections (sections 4.1, 4.7 and 8).\<close>

definition populateFromBuffer :: "nat \<Rightarrow> u8 list \<Rightarrow> BytecodeForm \<Rightarrow> PopulateResult" where
  "populateFromBuffer regExpEntryBytes bytes form =
     (let r0 = \<lparr>outError = None, outFields = nullFields, extents = []\<rparr> in
      if length bytes < sizeof_BytecodeFileHeader
      then r0\<lparr>outError := Some (TruncatedBuffer SecHeader)\<rparr>
      else
        let h = readHeader bytes;
            r1 = r0\<lparr>extents := [(0, sizeof_BytecodeFileHeader)]\<rparr> in
        if bfh_magic h \<noteq> expectedMagic form then r1\<lparr>outError := Some MagicMismatch\<rparr>
        else if bfh_version h \<noteq> BYTECODE_VERSION then r1\<lparr>outError := Some VersionMismatch\<rparr>
        else visitSections (length bytes) (sections regExpEntryBytes h)
               sizeof_BytecodeFileHeader (r1\<lparr>outFields := nullFields\<lparr>header := Some 0\<rparr>\<rparr>))"


text \<open>
  Two files in memory. Both have the execution magic, the current version and one
  function; \<open>resolvedFile\<close> declares \<open>cjsModuleCount = -1\<close> and ends with one 32-bit
  function index, \<open>unresolvedFile\<close> declares \<open>cjsModuleCount = 2\<close> and ends with two pairs.
\<close>

definition resolvedHeader :: BytecodeFileHeader where
  "resolvedHeader =
     BytecodeFileHeader MAGIC BYTECODE_VERSION [] 116 0 1 0 0 0 0 0 0 0 0 0 (- 1) 0
       BytecodeOptions"

definition resolvedFile :: "u8 list" where
  "resolvedFile = headerBytes resolvedHeader @ replicate sizeof_SmallFuncHeader 0 @ bytes32 0"

definition unresolvedHeader :: BytecodeFileHeader where
  "unresolvedHeader =
     BytecodeFileHeader MAGIC BYTECODE_VERSION [] 128 0 1 0 0 0 0 0 0 0 0 0 2 0
       BytecodeOptions"

definition unresolvedFile :: "u8 list" where
  "unresolvedFile =
     headerBytes unresolvedHeader @ replicate sizeof_SmallFuncHeader 0 @
     bytes32 7 @ bytes32 0 @ bytes32 9 @ bytes32 0"

text \<open>The first of the two files with the delta magic in place of the execution magic.\<close>

definition deltaFile :: "u8 list" where
  "deltaFile =
     headerBytes (resolvedHeader\<lparr>bfh_magic := DELTA_MAGIC\<rparr>) @
     replicate sizeof_SmallFuncHeader 0 @ bytes32 0"

section \<open>Facts about the function headers\<close>

lemma overflowed_set_overflowed: "overflowed (set_overflowed f)"
  by (simp add: overflowed_def set_overflowed_def bit_simps)

lemma low16_is_mask: "(0xffff :: u32) = mask 16"
  by (simp add: mask_eq_exp_minus_1)

lemma join_split_u32:
  "push_bit 16 (ucast (ucast (drop_bit 16 x) :: 25 word)) OR
   ucast (ucast (x AND 0xffff) :: 25 word) = (x :: u32)"
  unfolding low16_is_mask
proof (rule bit_word_eqI)
  fix n
  assume "n < LENGTH(32)"
  then show "bit (push_bit 16 (ucast (ucast (drop_bit 16 x) :: 25 word)) OR
                  (ucast (ucast (x AND mask 16) :: 25 word) :: u32)) n = bit x n"
    by (cases "n < 16") (auto simp add: bit_simps)
qed

lemma getLargeHeaderOffset_setLargeHeaderOffset:
  "getLargeHeaderOffset (setLargeHeaderOffset s x) = Inr x"
  by (simp add: getLargeHeaderOffset_def setLargeHeaderOffset_def
      overflowed_set_overflowed join_split_u32)

lemma overflowed_setLargeHeaderOffset:
  "overflowed (sfh_flags (setLargeHeaderOffset s x))"
  by (simp add: setLargeHeaderOffset_def overflowed_set_overflowed)


lemma widen_narrow:
  fixes x :: u32
  assumes "unat x < 2 ^ LENGTH('b::len)"
  shows "(ucast (ucast x :: 'b word) :: u32) = x"
proof -
  have "unat (ucast (ucast x :: 'b word) :: u32) = unat x"
    using assms by (simp add: unsigned_ucast_eq unsigned_take_bit_eq take_bit_nat_eq_self)
  then show ?thesis
    by (simp only: word_unat_eq_iff)
qed

lemma u8_never_overflows: "(255 < unat (ucast (b :: u8) :: u32)) = False"
proof -
  have "unat b < 2 ^ LENGTH(8)"
    by (rule unsigned_less)
  then have "unat (ucast b :: u32) < 256"
    by (simp add: unsigned_ucast_eq take_bit_nat_eq_self)
  then show ?thesis
    by simp
qed


lemma SmallFuncHeader_when_fit:
  assumes "fieldsFit large"
  shows "SmallFuncHeader large =
           (if overflowed (fh_flags large) then Inl AssertionFailed
            else Inr (copiedFields large))"
  using assms
  by (simp add: fieldsFit_def SmallFuncHeader_def Let_def word_less_nat_alt
      u8_never_overflows zeroedSmallFuncHeader_def copiedFields_def)

lemma SmallFuncHeader_when_overflow:
  assumes "\<not> fieldsFit large"
  shows "\<exists>s0. SmallFuncHeader large = Inr (setLargeHeaderOffset s0 (fh_infoOffset large))"
proof -
  have "unat (fh_highestReadCacheIndex large) \<le> 2 ^ 8 - 1"
    "unat (fh_highestWriteCacheIndex large) \<le> 2 ^ 8 - 1"
    using unsigned_less [of "fh_highestReadCacheIndex large", where ?'a = nat]
      unsigned_less [of "fh_highestWriteCacheIndex large", where ?'a = nat]
    by simp_all
  with assms have
    "fh_offset large > 33554431 \<or> fh_paramCount large > 127 \<or>
     fh_bytecodeSizeInBytes large > 32767 \<or> fh_functionName large > 131071 \<or>
     fh_infoOffset large > 33554431 \<or> fh_frameSize large > 127 \<or>
     fh_environmentSize large > 255"
    by (simp add: fieldsFit_def word_less_nat_alt) linarith
  then show ?thesis
    by (simp add: SmallFuncHeader_def Let_def) blast
qed

section \<open>Facts about string table entries\<close>

lemma INVALID_OFFSET_val: "unat INVALID_OFFSET = 2 ^ 22"
  by (simp add: INVALID_OFFSET_def)

lemma INVALID_LENGTH_val: "unat INVALID_LENGTH = 2 ^ 8 - 1"
  by (simp add: INVALID_LENGTH_def)

lemma isOverflowed_iff: "isOverflowed s \<longleftrightarrow> unat (sste_length s) = 2 ^ 8 - 1"
proof -
  have "isOverflowed s \<longleftrightarrow> unat (ucast (sste_length s) :: u32) = unat INVALID_LENGTH"
    by (simp only: isOverflowed_def word_unat_eq_iff)
  also have "unat (ucast (sste_length s) :: u32) = unat (sste_length s)"
    using unsigned_less [of "sste_length s", where ?'a = nat]
    by (simp add: unsigned_ucast_eq take_bit_nat_eq_self)
  finally show ?thesis
    by (simp add: INVALID_LENGTH_val)
qed

lemma inline_entry:
  assumes "unat (getOffset entry) < 2 ^ 22" and "unat (getLength entry) < 2 ^ 8 - 1"
  shows "SmallStringTableEntry entry overflowOffset =
           Inr \<lparr>sste_isUTF16 = isUTF16 entry, sste_isIdentifier = isIdentifier entry,
                sste_offset = ucast (getOffset entry), sste_length = ucast (getLength entry)\<rparr>"
  using assms
  by (simp add: SmallStringTableEntry_def word_less_nat_alt INVALID_OFFSET_val INVALID_LENGTH_val)

lemma overflow_entry:
  assumes "\<not> (unat (getOffset entry) < 2 ^ 22 \<and> unat (getLength entry) < 2 ^ 8 - 1)"
  shows "SmallStringTableEntry entry overflowOffset =
           (if unat overflowOffset < 2 ^ 22
            then Inr \<lparr>sste_isUTF16 = isUTF16 entry, sste_isIdentifier = isIdentifier entry,
                sste_offset = ucast overflowOffset, sste_length = 255\<rparr>
            else Inl AssertionFailed)"
  using assms
  by (auto simp add: SmallStringTableEntry_def word_less_nat_alt INVALID_OFFSET_val INVALID_LENGTH_val
      INVALID_LENGTH_def)

section \<open>Facts about the population pass\<close>

lemma getView_setView_same:
  "sec \<noteq> SecHeader \<Longrightarrow> getView sec (setView sec v f) = v"
  by (cases sec) simp_all

lemma getView_setView_other:
  "sec' \<noteq> sec \<Longrightarrow> getView sec' (setView sec v f) = getView sec' f"
  by (cases sec; cases sec') simp_all

lemma header_setView: "header (setView sec v f) = header f"
  by (cases sec) simp_all



lemma visitSections_untouched:
  "sec \<notin> fst ` set plan \<Longrightarrow>
   getView sec (outFields (visitSections n plan pos r)) = getView sec (outFields r)"
proof (induction plan arbitrary: pos r)
  case Nil
  then show ?case by simp
next
  case (Cons a plan)
  obtain sec' elemBytes count where a: "a = (sec', elemBytes, count)"
    by (cases a)
  from Cons.prems have ne: "sec \<noteq> sec'" and rest: "sec \<notin> fst ` set plan"
    by (auto simp add: a)
  show ?case
    using Cons.IH [OF rest] ne by (simp add: a getView_setView_other)
qed

lemma visitSections_last:
  assumes "outError (visitSections n (plan @ [(sec, elemBytes, count)]) pos r) = None"
    and "sec \<noteq> SecHeader"
  shows "\<exists>p. getView sec (outFields (visitSections n (plan @ [(sec, elemBytes, count)]) pos r))
               = \<lparr>ar_data = Some p, ar_size = count\<rparr> \<and>
             last (extents (visitSections n (plan @ [(sec, elemBytes, count)]) pos r))
               = (p, count * elemBytes)"
  using assms
proof (induction plan arbitrary: pos r)
  case Nil
  then show ?case
    by (simp add: getView_setView_same split: if_splits)
next
  case (Cons a plan)
  obtain sec' elemBytes' count' where a: "a = (sec', elemBytes', count')"
    by (cases a)
  show ?case
  proof (cases "count' * elemBytes' \<le> n - pos")
    case True
    with Cons.prems Cons.IH show ?thesis
      by (simp add: a)
  next
    case False
    with Cons.prems show ?thesis
      by (simp add: a)
  qed
qed

lemma sections_split:
  "sections regExpEntryBytes h = butlast (sections regExpEntryBytes h) @ [moduleTable h]"
  by (simp add: sections_def)

lemma static_not_visited:
  "0 \<le> sint (bfh_cjsModuleCount h) \<Longrightarrow>
   SecCJSModuleTableStatic \<notin> fst ` set (sections regExpEntryBytes h)"
  by (simp add: sections_def moduleTable_def)

lemma pairs_not_visited:
  "sint (bfh_cjsModuleCount h) < 0 \<Longrightarrow>
   SecCJSModuleTable \<notin> fst ` set (sections regExpEntryBytes h)"
  by (simp add: sections_def moduleTable_def)

lemma populate_accepted:
  assumes "outError (populateFromBuffer regExpEntryBytes bytes form) = None"
  shows "populateFromBuffer regExpEntryBytes bytes form =
           visitSections (length bytes) (sections regExpEntryBytes (readHeader bytes))
             sizeof_BytecodeFileHeader
             \<lparr>outError = None, outFields = nullFields\<lparr>header := Some 0\<rparr>,
              extents = [(0, sizeof_BytecodeFileHeader)]\<rparr>"
  using assms by (simp add: populateFromBuffer_def Let_def split: if_splits)

section \<open>Properties of the compact function header\<close>

text \<open>
  Claim C1. Take a logical \<^verbatim>\<open>FunctionHeader\<close> whose \<open>overflowed\<close> flag is clear and
  whose nine fields are each at most \<open>2 ^ w - 1\<close> for the bit width \<open>w\<close> of the field in
  the compact record. Constructing a \<^verbatim>\<open>SmallFuncHeader\<close> from it succeeds; the record
  has the \<open>overflowed\<close> flag clear, the same flags, and every field, read back at the
  type of the logical header, equals the field it was copied from.
\<close>

theorem SmallFuncHeader_keeps_fitting_fields:
  assumes "\<not> overflowed (fh_flags large)"
    and "unat (fh_offset large) \<le> 2 ^ 25 - 1"
    and "unat (fh_paramCount large) \<le> 2 ^ 7 - 1"
    and "unat (fh_bytecodeSizeInBytes large) \<le> 2 ^ 15 - 1"
    and "unat (fh_functionName large) \<le> 2 ^ 17 - 1"
    and "unat (fh_infoOffset large) \<le> 2 ^ 25 - 1"
    and "unat (fh_frameSize large) \<le> 2 ^ 7 - 1"
    and "unat (fh_environmentSize large) \<le> 2 ^ 8 - 1"
    and "unat (fh_highestReadCacheIndex large) \<le> 2 ^ 8 - 1"
    and "unat (fh_highestWriteCacheIndex large) \<le> 2 ^ 8 - 1"
  shows "\<exists>s. SmallFuncHeader large = Inr s \<and>
           \<not> overflowed (sfh_flags s) \<and>
           sfh_flags s = fh_flags large \<and>
           ucast (sfh_offset s) = fh_offset large \<and>
           ucast (sfh_paramCount s) = fh_paramCount large \<and>
           ucast (sfh_bytecodeSizeInBytes s) = fh_bytecodeSizeInBytes large \<and>
           ucast (sfh_functionName s) = fh_functionName large \<and>
           ucast (sfh_infoOffset s) = fh_infoOffset large \<and>
           ucast (sfh_frameSize s) = fh_frameSize large \<and>
           ucast (sfh_environmentSize s) = fh_environmentSize large \<and>
           sfh_highestReadCacheIndex s = fh_highestReadCacheIndex large \<and>
           sfh_highestWriteCacheIndex s = fh_highestWriteCacheIndex large"
proof -
  have fit: "fieldsFit large"
    using assms(2-10) by (simp add: fieldsFit_def)
  have w: "ucast (ucast (fh_offset large) :: 25 word) = fh_offset large"
    "ucast (ucast (fh_paramCount large) :: 7 word) = fh_paramCount large"
    "ucast (ucast (fh_bytecodeSizeInBytes large) :: 15 word) = fh_bytecodeSizeInBytes large"
    "ucast (ucast (fh_functionName large) :: 17 word) = fh_functionName large"
    "ucast (ucast (fh_infoOffset large) :: 25 word) = fh_infoOffset large"
    "ucast (ucast (fh_frameSize large) :: 7 word) = fh_frameSize large"
    "ucast (ucast (fh_environmentSize large) :: 8 word) = fh_environmentSize large"
    using assms(2-8) by (simp_all add: widen_narrow)
  have "SmallFuncHeader large = Inr (copiedFields large)"
    using SmallFuncHeader_when_fit [OF fit] assms(1) by simp
  then show ?thesis
    using assms(1) by (simp add: copiedFields_def w)
qed

theorem SmallFuncHeader_keeps_fitting_fields_witness:
  "\<exists>s. SmallFuncHeader widestCompactHeader = Inr s \<and>
       \<not> overflowed (sfh_flags s) \<and> sfh_flags s = 7 \<and>
       (ucast (sfh_offset s) :: u32) = 33554431 \<and>
       (ucast (sfh_paramCount s) :: u32) = 127 \<and>
       (ucast (sfh_bytecodeSizeInBytes s) :: u32) = 32767 \<and>
       (ucast (sfh_functionName s) :: u32) = 131071 \<and>
       (ucast (sfh_infoOffset s) :: u32) = 33554431 \<and>
       (ucast (sfh_frameSize s) :: u32) = 127 \<and>
       (ucast (sfh_environmentSize s) :: u32) = 255 \<and>
       sfh_highestReadCacheIndex s = 255 \<and>
       sfh_highestWriteCacheIndex s = 255"
  using SmallFuncHeader_keeps_fitting_fields [of widestCompactHeader]
  by (simp add: widestCompactHeader_def overflowed_def)

text \<open>
  Claim C2. Take a logical \<^verbatim>\<open>FunctionHeader\<close> with at least one field above
  \<open>2 ^ w - 1\<close> for its compact bit width \<open>w\<close>. Constructing a \<^verbatim>\<open>SmallFuncHeader\<close> from it
  succeeds, the record has the \<open>overflowed\<close> flag set, and \<^verbatim>\<open>getLargeHeaderOffset\<close>
  returns the \<^verbatim>\<open>infoOffset\<close> of the logical header. Moreover, for every compact record
  and every 32-bit value \<open>x\<close>, \<^verbatim>\<open>getLargeHeaderOffset\<close> after \<^verbatim>\<open>setLargeHeaderOffset(x)\<close>
  returns \<open>x\<close>: joining the low 16 bits kept in \<open>offset\<close> and the high bits kept in
  \<open>infoOffset\<close> gives \<open>x\<close> back.
\<close>

theorem SmallFuncHeader_overflow_offset_roundtrip:
  assumes "2 ^ 25 - 1 < unat (fh_offset large) \<or>
           2 ^ 7 - 1 < unat (fh_paramCount large) \<or>
           2 ^ 15 - 1 < unat (fh_bytecodeSizeInBytes large) \<or>
           2 ^ 17 - 1 < unat (fh_functionName large) \<or>
           2 ^ 25 - 1 < unat (fh_infoOffset large) \<or>
           2 ^ 7 - 1 < unat (fh_frameSize large) \<or>
           2 ^ 8 - 1 < unat (fh_environmentSize large) \<or>
           2 ^ 8 - 1 < unat (fh_highestReadCacheIndex large) \<or>
           2 ^ 8 - 1 < unat (fh_highestWriteCacheIndex large)"
  shows "(\<exists>s. SmallFuncHeader large = Inr s \<and> overflowed (sfh_flags s) \<and>
              getLargeHeaderOffset s = Inr (fh_infoOffset large)) \<and>
         (\<forall>s0 x. getLargeHeaderOffset (setLargeHeaderOffset s0 x) = Inr x)"
proof -
  from assms have "\<not> fieldsFit large"
    unfolding fieldsFit_def by linarith
  then obtain s0 where "SmallFuncHeader large = Inr (setLargeHeaderOffset s0 (fh_infoOffset large))"
    using SmallFuncHeader_when_overflow by blast
  then show ?thesis
    by (simp add: getLargeHeaderOffset_setLargeHeaderOffset overflowed_setLargeHeaderOffset)
qed

theorem SmallFuncHeader_overflow_offset_roundtrip_witness:
  "\<exists>s. SmallFuncHeader oversizedHeader = Inr s \<and> overflowed (sfh_flags s) \<and>
       getLargeHeaderOffset s = Inr 0xDEADBEEF"
  using SmallFuncHeader_overflow_offset_roundtrip [of oversizedHeader]
  by (simp add: oversizedHeader_def)

text \<open>
  Claim C10. A \<^verbatim>\<open>FunctionHeader\<close> made by its public constructor has \<open>offset = 0\<close>,
  \<open>infoOffset = 0\<close>, a zero flag byte and so the four flags \<open>strictMode\<close>,
  \<open>hasExceptionHandler\<close>, \<open>hasDebugInfo\<close> and \<open>overflowed\<close> clear. Compacting it always
  succeeds, and whenever the compact record is overflowed the large-header offset it
  encodes is 0.
\<close>

theorem FunctionHeader_constructor_zero_offsets:
  "let h = FunctionHeader size' paramCount frameSize envSize functionNameID
             hiRCacheIndex hiWCacheIndex in
     fh_offset h = 0 \<and> fh_infoOffset h = 0 \<and> fh_flags h = 0 \<and>
     \<not> strictMode (fh_flags h) \<and> \<not> hasExceptionHandler (fh_flags h) \<and>
     \<not> hasDebugInfo (fh_flags h) \<and> \<not> overflowed (fh_flags h) \<and>
     (\<exists>s. SmallFuncHeader h = Inr s) \<and>
     (\<forall>s. SmallFuncHeader h = Inr s \<longrightarrow> overflowed (sfh_flags s) \<longrightarrow>
          getLargeHeaderOffset s = Inr 0)"
proof -
  define h where "h = FunctionHeader size' paramCount frameSize envSize functionNameID
             hiRCacheIndex hiWCacheIndex"
  have f: "fh_offset h = 0" "fh_infoOffset h = 0" "fh_flags h = 0"
    by (simp_all add: h_def FunctionHeader_def FunctionHeaderFlag_def)
  have b: "\<not> strictMode (fh_flags h)" "\<not> hasExceptionHandler (fh_flags h)"
    "\<not> hasDebugInfo (fh_flags h)" "\<not> overflowed (fh_flags h)"
    by (simp_all add: f strictMode_def hasExceptionHandler_def hasDebugInfo_def overflowed_def)
  have c: "(\<exists>s. SmallFuncHeader h = Inr s) \<and>
     (\<forall>s. SmallFuncHeader h = Inr s \<longrightarrow> overflowed (sfh_flags s) \<longrightarrow>
          getLargeHeaderOffset s = Inr 0)"
  proof (cases "fieldsFit h")
    case True
    then have "SmallFuncHeader h = Inr (copiedFields h)"
      using SmallFuncHeader_when_fit b(4) by simp
    moreover have "\<not> overflowed (sfh_flags (copiedFields h))"
      using b(4) by (simp add: copiedFields_def)
    ultimately show ?thesis by auto
  next
    case False
    then obtain s0 where "SmallFuncHeader h = Inr (setLargeHeaderOffset s0 (fh_infoOffset h))"
      using SmallFuncHeader_when_overflow by blast
    then show ?thesis
      by (simp add: f getLargeHeaderOffset_setLargeHeaderOffset)
  qed
  show ?thesis
    unfolding Let_def h_def [symmetric] using f b c by simp
qed

theorem FunctionHeader_constructor_zero_offsets_witness:
  "\<exists>s. SmallFuncHeader (FunctionHeader 32768 1 1 1 1 0 0) = Inr s \<and>
       overflowed (sfh_flags s) \<and> getLargeHeaderOffset s = Inr 0"
proof -
  have "\<not> fieldsFit (FunctionHeader 32768 1 1 1 1 0 0)"
    by (simp add: fieldsFit_def FunctionHeader_def)
  then obtain s0 where
    e: "SmallFuncHeader (FunctionHeader 32768 1 1 1 1 0 0) = Inr (setLargeHeaderOffset s0 0)"
    using SmallFuncHeader_when_overflow [of "FunctionHeader 32768 1 1 1 1 0 0"]
    by (auto simp add: FunctionHeader_def)
  have "overflowed (sfh_flags (setLargeHeaderOffset s0 0))"
    by (rule overflowed_setLargeHeaderOffset)
  with e FunctionHeader_constructor_zero_offsets [of 32768 1 1 1 1 0 0] show ?thesis
    by (simp add: Let_def)
qed

section \<open>Properties of the compact string table entry\<close>

text \<open>
  Claim C3, amended. For a string table entry with offset below \<open>2 ^ 22\<close> and length
  below \<open>2 ^ 8 - 1\<close>, constructing a \<^verbatim>\<open>SmallStringTableEntry\<close> succeeds for every
  overflow index, stores offset and length as they are, and \<^verbatim>\<open>isOverflowed()\<close> is
  false. For an entry that violates either bound and a supplied overflow index below
  \<open>2 ^ 22\<close> (the precondition the constructor asserts), the construction succeeds, the
  length of the compact entry is the sentinel \<open>2 ^ 8 - 1\<close>, its offset is the supplied
  index, and \<^verbatim>\<open>isOverflowed()\<close> is true. In every compact entry \<^verbatim>\<open>isOverflowed()\<close> holds
  exactly when the length is the sentinel, so the two states exclude each other and the
  length alone tells them apart.
\<close>

theorem SmallStringTableEntry_inline_or_sentinel:
  "(unat (getOffset entry) < 2 ^ 22 \<and> unat (getLength entry) < 2 ^ 8 - 1 \<longrightarrow>
      (\<exists>s. SmallStringTableEntry entry overflowOffset = Inr s \<and>
           ucast (sste_offset s) = getOffset entry \<and>
           ucast (sste_length s) = getLength entry \<and>
           \<not> isOverflowed s)) \<and>
   (\<not> (unat (getOffset entry) < 2 ^ 22 \<and> unat (getLength entry) < 2 ^ 8 - 1) \<and>
    unat overflowOffset < 2 ^ 22 \<longrightarrow>
      (\<exists>s. SmallStringTableEntry entry overflowOffset = Inr s \<and>
           unat (sste_length s) = 2 ^ 8 - 1 \<and>
           ucast (sste_offset s) = overflowOffset \<and>
           isOverflowed s)) \<and>
   (\<forall>s. isOverflowed s \<longleftrightarrow> unat (sste_length s) = 2 ^ 8 - 1)"
proof (intro conjI impI allI)
  assume a: "unat (getOffset entry) < 2 ^ 22 \<and> unat (getLength entry) < 2 ^ 8 - 1"
  then have w: "(ucast (ucast (getOffset entry) :: 22 word) :: u32) = getOffset entry"
    "(ucast (ucast (getLength entry) :: 8 word) :: u32) = getLength entry"
    by (simp_all add: widen_narrow)
  have "unat (ucast (getLength entry) :: 8 word) = unat (getLength entry)"
    using a by (simp add: unsigned_ucast_eq take_bit_nat_eq_self)
  then have "\<not> isOverflowed \<lparr>sste_isUTF16 = isUTF16 entry, sste_isIdentifier = isIdentifier entry,
                sste_offset = ucast (getOffset entry), sste_length = ucast (getLength entry)\<rparr>"
    using a by (simp add: isOverflowed_iff)
  then show "\<exists>s. SmallStringTableEntry entry overflowOffset = Inr s \<and>
           ucast (sste_offset s) = getOffset entry \<and>
           ucast (sste_length s) = getLength entry \<and>
           \<not> isOverflowed s"
    using a by (simp add: inline_entry w)
next
  assume b: "\<not> (unat (getOffset entry) < 2 ^ 22 \<and> unat (getLength entry) < 2 ^ 8 - 1) \<and>
    unat overflowOffset < 2 ^ 22"
  then have a: "\<not> (unat (getOffset entry) < 2 ^ 22 \<and> unat (getLength entry) < 2 ^ 8 - 1)"
    and lt: "unat overflowOffset < 2 ^ 22"
    by simp_all
  define s where "s = \<lparr>sste_isUTF16 = isUTF16 entry, sste_isIdentifier = isIdentifier entry,
                sste_offset = (ucast overflowOffset :: 22 word), sste_length = 255\<rparr>"
  have r: "SmallStringTableEntry entry overflowOffset = Inr s"
    unfolding overflow_entry [OF a] s_def using lt by simp
  have l: "unat (sste_length s) = 2 ^ 8 - 1"
    by (simp add: s_def)
  have o: "ucast (sste_offset s) = overflowOffset"
    using lt by (simp add: s_def widen_narrow)
  have v: "isOverflowed s"
    by (simp add: s_def isOverflowed_iff)
  from r l o v show "\<exists>s. SmallStringTableEntry entry overflowOffset = Inr s \<and>
           unat (sste_length s) = 2 ^ 8 - 1 \<and>
           ucast (sste_offset s) = overflowOffset \<and>
           isOverflowed s"
    by blast
next
  fix s
  show "isOverflowed s \<longleftrightarrow> unat (sste_length s) = 2 ^ 8 - 1"
    by (rule isOverflowed_iff)
qed

theorem SmallStringTableEntry_inline_or_sentinel_witness:
  "(\<exists>s. SmallStringTableEntry nearEntry 0 = Inr s \<and>
        (ucast (sste_offset s) :: u32) = 4194303 \<and> (ucast (sste_length s) :: u32) = 254 \<and>
        \<not> isOverflowed s) \<and>
   (\<exists>s. SmallStringTableEntry farEntry 3 = Inr s \<and>
        unat (sste_length s) = 255 \<and> (ucast (sste_offset s) :: u32) = 3 \<and> isOverflowed s)"
proof -
  have near: "unat (getOffset nearEntry) < 2 ^ 22 \<and> unat (getLength nearEntry) < 2 ^ 8 - 1"
    by (simp add: nearEntry_def)
  have far: "\<not> (unat (getOffset farEntry) < 2 ^ 22 \<and> unat (getLength farEntry) < 2 ^ 8 - 1) \<and>
    unat (3 :: u32) < 2 ^ 22"
    by (simp add: farEntry_def)
  from SmallStringTableEntry_inline_or_sentinel [of nearEntry 0] near
  have "\<exists>s. SmallStringTableEntry nearEntry 0 = Inr s \<and>
        ucast (sste_offset s) = getOffset nearEntry \<and>
        ucast (sste_length s) = getLength nearEntry \<and> \<not> isOverflowed s"
    by blast
  then have a: "\<exists>s. SmallStringTableEntry nearEntry 0 = Inr s \<and>
        (ucast (sste_offset s) :: u32) = 4194303 \<and> (ucast (sste_length s) :: u32) = 254 \<and>
        \<not> isOverflowed s"
    by (simp add: nearEntry_def)
  from SmallStringTableEntry_inline_or_sentinel [of farEntry 3] far
  have "\<exists>s. SmallStringTableEntry farEntry 3 = Inr s \<and>
        unat (sste_length s) = 2 ^ 8 - 1 \<and> ucast (sste_offset s) = (3 :: u32) \<and> isOverflowed s"
    by blast
  then have b: "\<exists>s. SmallStringTableEntry farEntry 3 = Inr s \<and>
        unat (sste_length s) = 255 \<and> (ucast (sste_offset s) :: u32) = 3 \<and> isOverflowed s"
    by simp
  from a b show ?thesis ..
qed

text \<open>
  Claim C3 as first stated promises the sentinel and the supplied index for every
  entry that violates a bound, whatever the index. The entry \<open>longEntry\<close> has the
  reserved length 255, so it takes the overflow path; with the overflow index 5000000,
  which is not below \<open>2 ^ 22\<close>, the assertion of the constructor fails and no compact
  entry is constructed. A 22-bit field could not hold that index either: its low 22
  bits are 805696.
\<close>

theorem SmallStringTableEntry_large_index_fails_assertion:
  "\<not> (unat (getOffset longEntry) < 2 ^ 22 \<and> unat (getLength longEntry) < 2 ^ 8 - 1) \<and>
   SmallStringTableEntry longEntry 5000000 = Inl AssertionFailed \<and>
   (ucast (ucast (5000000 :: u32) :: 22 word) :: u32) = 805696"
  by (simp add: longEntry_def SmallStringTableEntry_def INVALID_OFFSET_def INVALID_LENGTH_def)

text \<open>
  Claim C9. The 22-bit offset of a \<^verbatim>\<open>SmallStringTableEntry\<close> is never the reserved value
  \<^verbatim>\<open>INVALID_OFFSET\<close> \<open>= 2 ^ 22\<close>. Constructing an entry on the overflow path asserts
  that the supplied overflow index is below \<^verbatim>\<open>INVALID_OFFSET\<close>: when it is, the entry is
  constructed, is overflowed, and its offset read back is the supplied index, nothing
  cut off; when it is not, the assertion fails.
\<close>

theorem SmallStringTableEntry_overflow_index_kept:
  "unat (sste_offset s) \<noteq> unat INVALID_OFFSET \<and>
   (\<not> (getOffset entry < INVALID_OFFSET \<and> getLength entry < INVALID_LENGTH) \<longrightarrow>
      (overflowOffset < INVALID_OFFSET \<longrightarrow>
         (\<exists>s'. SmallStringTableEntry entry overflowOffset = Inr s' \<and> isOverflowed s' \<and>
               unat (sste_offset s') = unat overflowOffset \<and>
               ucast (sste_offset s') = overflowOffset)) \<and>
      (\<not> overflowOffset < INVALID_OFFSET \<longrightarrow>
         SmallStringTableEntry entry overflowOffset = Inl AssertionFailed))"
proof (intro conjI impI)
  have "unat (sste_offset s) < 2 ^ LENGTH(22)"
    by (rule unsigned_less)
  then show "unat (sste_offset s) \<noteq> unat INVALID_OFFSET"
    by (simp add: INVALID_OFFSET_val)
next
  assume a: "\<not> (getOffset entry < INVALID_OFFSET \<and> getLength entry < INVALID_LENGTH)"
    and b: "overflowOffset < INVALID_OFFSET"
  from b have lt: "unat overflowOffset < 2 ^ 22"
    by (simp add: word_less_nat_alt INVALID_OFFSET_val)
  from a have a': "\<not> (unat (getOffset entry) < 2 ^ 22 \<and> unat (getLength entry) < 2 ^ 8 - 1)"
    by (simp add: word_less_nat_alt INVALID_OFFSET_val INVALID_LENGTH_val)
  have "unat (ucast overflowOffset :: 22 word) = unat overflowOffset"
    using lt by (simp add: unsigned_ucast_eq take_bit_nat_eq_self)
  then show "\<exists>s'. SmallStringTableEntry entry overflowOffset = Inr s' \<and> isOverflowed s' \<and>
               unat (sste_offset s') = unat overflowOffset \<and>
               ucast (sste_offset s') = overflowOffset"
    using lt by (simp add: overflow_entry [OF a'] isOverflowed_iff widen_narrow)
next
  assume a: "\<not> (getOffset entry < INVALID_OFFSET \<and> getLength entry < INVALID_LENGTH)"
    and b: "\<not> overflowOffset < INVALID_OFFSET"
  from b have lt: "\<not> unat overflowOffset < 2 ^ 22"
    by (simp add: word_less_nat_alt INVALID_OFFSET_val)
  from a have a': "\<not> (unat (getOffset entry) < 2 ^ 22 \<and> unat (getLength entry) < 2 ^ 8 - 1)"
    by (simp add: word_less_nat_alt INVALID_OFFSET_val INVALID_LENGTH_val)
  show "SmallStringTableEntry entry overflowOffset = Inl AssertionFailed"
    using lt by (simp add: overflow_entry [OF a'])
qed

theorem SmallStringTableEntry_overflow_index_kept_witness:
  "(\<exists>s'. SmallStringTableEntry farEntry 4194303 = Inr s' \<and> isOverflowed s' \<and>
         unat (sste_offset s') = 4194303) \<and>
   SmallStringTableEntry farEntry 4194304 = Inl AssertionFailed"
proof -
  have far: "\<not> (getOffset farEntry < INVALID_OFFSET \<and> getLength farEntry < INVALID_LENGTH)"
    by (simp add: farEntry_def INVALID_OFFSET_def)
  have low: "(4194303 :: u32) < INVALID_OFFSET" and high: "\<not> (4194304 :: u32) < INVALID_OFFSET"
    by (simp_all add: INVALID_OFFSET_def)
  from SmallStringTableEntry_overflow_index_kept [of _ farEntry 4194303] far low
  have a: "\<exists>s'. SmallStringTableEntry farEntry 4194303 = Inr s' \<and> isOverflowed s' \<and>
         unat (sste_offset s') = 4194303"
    by auto
  from SmallStringTableEntry_overflow_index_kept [of _ farEntry 4194304] far high
  have b: "SmallStringTableEntry farEntry 4194304 = Inl AssertionFailed"
    by blast
  from a b show ?thesis ..
qed

section \<open>Properties of the constants and of the file header\<close>

text \<open>
  Claim C7. The delta magic is the bitwise complement of the 64-bit execution magic,
  \<^verbatim>\<open>DELTA_MAGIC == ~MAGIC\<close>; the two values differ, and for each expected form exactly one
  of the two is the magic of that form.
\<close>

theorem DELTA_MAGIC_is_complement_of_MAGIC:
  "DELTA_MAGIC = NOT MAGIC \<and> DELTA_MAGIC \<noteq> MAGIC \<and>
   MAGIC = 0x1F1903C103BC1FC6 \<and> DELTA_MAGIC = 0xE0E6FC3EFC43E039 \<and>
   expectedMagic Execution = MAGIC \<and> expectedMagic Delta = DELTA_MAGIC \<and>
   (\<forall>form. (expectedMagic form = MAGIC) \<noteq> (expectedMagic form = DELTA_MAGIC))"
proof -
  have d: "DELTA_MAGIC = 0xE0E6FC3EFC43E039"
    by (simp add: DELTA_MAGIC_def MAGIC_def)
  have ne: "DELTA_MAGIC \<noteq> MAGIC"
    by (simp add: d MAGIC_def)
  have "(expectedMagic form = MAGIC) \<noteq> (expectedMagic form = DELTA_MAGIC)" for form
    using ne by (cases form) (auto simp add: expectedMagic_def)
  then show ?thesis
    using d ne by (simp add: expectedMagic_def) (simp add: DELTA_MAGIC_def MAGIC_def)
qed

text \<open>
  Claim C6. The size of \<^verbatim>\<open>BytecodeFileHeader\<close> is a multiple of 32 bytes (it is 96), the
  size of \<^verbatim>\<open>SmallFuncHeader\<close> divides 32 bytes (it is 16), and every header made by the
  constructor has its seven padding bytes equal to zero: the member \<open>padding\<close> is seven
  zeros, the header is 96 bytes in memory and the last seven of them are zero.
\<close>

theorem header_sizes_and_zero_padding:
  "sizeof_BytecodeFileHeader = 96 \<and> sizeof_BytecodeFileHeader mod 32 = 0 \<and>
   sizeof_SmallFuncHeader = 16 \<and> 32 mod sizeof_SmallFuncHeader = 0 \<and>
   (let h = BytecodeFileHeader magic version sourceHash fileLength globalCodeIndex
              functionCount stringCount identifierCount stringTableBytes stringStorageSize
              regExpCount regExpStorageSize arrayBufferSize objKeyBufferSize
              objValueBufferSize cjsModuleCount debugInfoOffset options in
      bfh_padding h = [0, 0, 0, 0, 0, 0, 0] \<and>
      length (headerBytes h) = sizeof_BytecodeFileHeader \<and>
      drop (sizeof_BytecodeFileHeader - 7) (headerBytes h) = [0, 0, 0, 0, 0, 0, 0])"
proof -
  have s: "sizeof_BytecodeFileHeader = 96" "sizeof_SmallFuncHeader = 16"
    by (simp_all add: sizeof_BytecodeFileHeader_def sizeof_SmallFuncHeader_def SHA1_NUM_BYTES_def)
  define h where "h = BytecodeFileHeader magic version sourceHash fileLength globalCodeIndex
              functionCount stringCount identifierCount stringTableBytes stringStorageSize
              regExpCount regExpStorageSize arrayBufferSize objKeyBufferSize
              objValueBufferSize cjsModuleCount debugInfoOffset options"
  have p: "bfh_padding h = [0, 0, 0, 0, 0, 0, 0]"
    by (simp add: h_def BytecodeFileHeader_def numeral_eq_Suc)
  have l: "length (bfh_sourceHash h) = 20"
    by (simp add: h_def BytecodeFileHeader_def SHA1_NUM_BYTES_def)
  have n: "length (headerBytes h) = 96"
    by (simp add: headerBytes_def bytes32_def bytes64_def p l)
  have d: "drop 89 (headerBytes h) = [0, 0, 0, 0, 0, 0, 0]"
    by (simp add: headerBytes_def bytes32_def bytes64_def p l)
  have m: "sizeof_BytecodeFileHeader mod 32 = 0" "32 mod sizeof_SmallFuncHeader = 0"
    by (simp_all add: s)
  have n': "length (headerBytes h) = sizeof_BytecodeFileHeader"
    by (simp add: n s)
  have d': "drop (sizeof_BytecodeFileHeader - 7) (headerBytes h) = [0, 0, 0, 0, 0, 0, 0]"
    by (simp add: d s)
  from s m p n' d' show ?thesis
    unfolding Let_def h_def [symmetric] by blast
qed

section \<open>Properties of the population pass\<close>

text \<open>
  Claim C4, amended. For every buffer that holds at least the fixed-size header: if the
  magic read from it differs from the magic of the expected form, \<^verbatim>\<open>populateFromBuffer\<close>
  fails with a magic mismatch; if the magic agrees and the version differs from
  \<^verbatim>\<open>BYTECODE_VERSION\<close>, it fails with a version mismatch; in both cases only the bytes of
  the header have been read and no field has been set. In particular such a buffer with
  the execution magic fails with a magic mismatch when the delta form is expected, and
  one with the delta magic when the execution form is expected.
\<close>

theorem populateFromBuffer_rejects_wrong_magic_or_version:
  assumes "sizeof_BytecodeFileHeader \<le> length bytes"
  shows "(bfh_magic (readHeader bytes) \<noteq> expectedMagic form \<longrightarrow>
            populateFromBuffer regExpEntryBytes bytes form =
              \<lparr>outError = Some MagicMismatch, outFields = nullFields,
               extents = [(0, sizeof_BytecodeFileHeader)]\<rparr>) \<and>
         (bfh_magic (readHeader bytes) = expectedMagic form \<and>
          bfh_version (readHeader bytes) \<noteq> BYTECODE_VERSION \<longrightarrow>
            populateFromBuffer regExpEntryBytes bytes form =
              \<lparr>outError = Some VersionMismatch, outFields = nullFields,
               extents = [(0, sizeof_BytecodeFileHeader)]\<rparr>) \<and>
         (bfh_magic (readHeader bytes) = MAGIC \<longrightarrow>
            outError (populateFromBuffer regExpEntryBytes bytes Delta) = Some MagicMismatch) \<and>
         (bfh_magic (readHeader bytes) = DELTA_MAGIC \<longrightarrow>
            outError (populateFromBuffer regExpEntryBytes bytes Execution) = Some MagicMismatch)"
proof -
  have ne: "MAGIC \<noteq> DELTA_MAGIC"
    by (simp add: DELTA_MAGIC_def MAGIC_def)
  show ?thesis
    using assms ne by (auto simp add: populateFromBuffer_def Let_def expectedMagic_def)
qed

theorem populateFromBuffer_rejects_wrong_magic_or_version_witness:
  "populateFromBuffer 8 resolvedFile Delta =
     \<lparr>outError = Some MagicMismatch, outFields = nullFields,
      extents = [(0, sizeof_BytecodeFileHeader)]\<rparr> \<and>
   populateFromBuffer 8 (resolvedFile[8 := 40]) Execution =
     \<lparr>outError = Some VersionMismatch, outFields = nullFields,
      extents = [(0, sizeof_BytecodeFileHeader)]\<rparr> \<and>
   bfh_magic (readHeader deltaFile) = DELTA_MAGIC \<and>
   outError (populateFromBuffer 8 deltaFile Execution) = Some MagicMismatch \<and>
   outError (populateFromBuffer 8 deltaFile Delta) = None"
proof -
  have len: "sizeof_BytecodeFileHeader \<le> length resolvedFile"
    "sizeof_BytecodeFileHeader \<le> length (resolvedFile[8 := 40])"
    "sizeof_BytecodeFileHeader \<le> length deltaFile"
    by code_simp+
  have m: "bfh_magic (readHeader resolvedFile) \<noteq> expectedMagic Delta"
    by code_simp
  have v: "bfh_magic (readHeader (resolvedFile[8 := 40])) = expectedMagic Execution \<and>
          bfh_version (readHeader (resolvedFile[8 := 40])) \<noteq> BYTECODE_VERSION"
    by code_simp
  have d: "bfh_magic (readHeader deltaFile) = DELTA_MAGIC"
    by code_simp
  have ok: "outError (populateFromBuffer 8 deltaFile Delta) = None"
    by code_simp
  note t = populateFromBuffer_rejects_wrong_magic_or_version
  from t [OF len(1), of Delta 8] m t [OF len(2), of Execution 8] v t [OF len(3), of Execution 8] d ok
  show ?thesis by blast
qed

text \<open>
  Claim C4 as first stated asks for a magic or version mismatch on every buffer whose
  first 8 bytes are not the expected magic. The buffer made of the 8 bytes of the
  execution magic, parsed as delta form, differs from the delta magic and is rejected
  as truncated: it is shorter than the header.
\<close>

theorem populateFromBuffer_short_buffer_is_truncated:
  "bytes64 MAGIC \<noteq> bytes64 (expectedMagic Delta) \<and>
   outError (populateFromBuffer 8 (bytes64 MAGIC) Delta) = Some (TruncatedBuffer SecHeader) \<and>
   outError (populateFromBuffer 8 (bytes64 MAGIC) Delta) \<noteq> Some MagicMismatch \<and>
   outError (populateFromBuffer 8 (bytes64 MAGIC) Delta) \<noteq> Some VersionMismatch"
  by (simp add: populateFromBuffer_def bytes64_def sizeof_BytecodeFileHeader_def
      SHA1_NUM_BYTES_def expectedMagic_def MAGIC_def DELTA_MAGIC_def)



text \<open>
  Claim C8. For every buffer that \<^verbatim>\<open>populateFromBuffer\<close> accepts, the sign of the signed
  32-bit \<^verbatim>\<open>cjsModuleCount\<close> of its header selects the module table. Negative: the view
  \<^verbatim>\<open>cjsModuleTableStatic\<close> is set, with \<open>- cjsModuleCount\<close> elements of 4 bytes (the last
  extent of the pass), and \<^verbatim>\<open>cjsModuleTable\<close> is left null. Non-negative: the view
  \<^verbatim>\<open>cjsModuleTable\<close> is set, with \<open>cjsModuleCount\<close> elements of 8 bytes (a pair of 32-bit
  values), and \<^verbatim>\<open>cjsModuleTableStatic\<close> is left null. Exactly one of the two views is
  set.
\<close>

theorem populateFromBuffer_module_table_by_sign:
  assumes "outError (populateFromBuffer regExpEntryBytes bytes form) = None"
  shows "let c = sint (bfh_cjsModuleCount (readHeader bytes));
             f = outFields (populateFromBuffer regExpEntryBytes bytes form);
             es = extents (populateFromBuffer regExpEntryBytes bytes form) in
           (c < 0 \<longrightarrow>
              (\<exists>p. cjsModuleTableStatic f = \<lparr>ar_data = Some p, ar_size = nat (- c)\<rparr> \<and>
                   last es = (p, nat (- c) * 4)) \<and>
              cjsModuleTable f = nullArrayRef) \<and>
           (0 \<le> c \<longrightarrow>
              (\<exists>p. cjsModuleTable f = \<lparr>ar_data = Some p, ar_size = nat c\<rparr> \<and>
                   last es = (p, nat c * 8)) \<and>
              cjsModuleTableStatic f = nullArrayRef) \<and>
           (ar_data (cjsModuleTable f) = None) \<noteq> (ar_data (cjsModuleTableStatic f) = None)"
proof -
  define h where "h = readHeader bytes"
  define c where "c = sint (bfh_cjsModuleCount h)"
  define r0 where "r0 = \<lparr>outError = None, outFields = nullFields\<lparr>header := Some 0\<rparr>,
              extents = [(0, sizeof_BytecodeFileHeader)]\<rparr>"
  define res where "res = populateFromBuffer regExpEntryBytes bytes form"
  have res: "res = visitSections (length bytes) (sections regExpEntryBytes h)
                     sizeof_BytecodeFileHeader r0"
    unfolding res_def h_def r0_def using assms by (rule populate_accepted)
  have ok: "outError (visitSections (length bytes)
              (butlast (sections regExpEntryBytes h) @ [moduleTable h])
              sizeof_BytecodeFileHeader r0) = None"
    using assms res sections_split [of regExpEntryBytes h] by (simp add: res_def)
  have null: "cjsModuleTable (outFields r0) = nullArrayRef"
    "cjsModuleTableStatic (outFields r0) = nullArrayRef"
    by (simp_all add: r0_def nullFields_def)
  have neg: "(\<exists>p. cjsModuleTableStatic (outFields res) = \<lparr>ar_data = Some p, ar_size = nat (- c)\<rparr> \<and>
                   last (extents res) = (p, nat (- c) * 4)) \<and>
              cjsModuleTable (outFields res) = nullArrayRef" if "c < 0"
  proof -
    from that have mt: "moduleTable h = (SecCJSModuleTableStatic, 4, nat (- c))"
      by (simp add: moduleTable_def c_def)
    from visitSections_last [OF ok [unfolded mt]]
    have "\<exists>p. cjsModuleTableStatic (outFields res) = \<lparr>ar_data = Some p, ar_size = nat (- c)\<rparr> \<and>
                   last (extents res) = (p, nat (- c) * 4)"
      using sections_split [of regExpEntryBytes h] by (simp add: res mt)
    moreover have "SecCJSModuleTable \<notin> fst ` set (sections regExpEntryBytes h)"
      using that by (intro pairs_not_visited) (simp add: c_def)
    then have "cjsModuleTable (outFields res) = nullArrayRef"
      using visitSections_untouched [of SecCJSModuleTable "sections regExpEntryBytes h"
          "length bytes" sizeof_BytecodeFileHeader r0]
      by (simp add: res null)
    ultimately show ?thesis ..
  qed
  have pos: "(\<exists>p. cjsModuleTable (outFields res) = \<lparr>ar_data = Some p, ar_size = nat c\<rparr> \<and>
                   last (extents res) = (p, nat c * 8)) \<and>
              cjsModuleTableStatic (outFields res) = nullArrayRef" if "0 \<le> c"
  proof -
    from that have mt: "moduleTable h = (SecCJSModuleTable, 8, nat c)"
      by (simp add: moduleTable_def c_def)
    from visitSections_last [OF ok [unfolded mt]]
    have "\<exists>p. cjsModuleTable (outFields res) = \<lparr>ar_data = Some p, ar_size = nat c\<rparr> \<and>
                   last (extents res) = (p, nat c * 8)"
      using sections_split [of regExpEntryBytes h] by (simp add: res mt)
    moreover have "SecCJSModuleTableStatic \<notin> fst ` set (sections regExpEntryBytes h)"
      using that by (intro static_not_visited) (simp add: c_def)
    then have "cjsModuleTableStatic (outFields res) = nullArrayRef"
      using visitSections_untouched [of SecCJSModuleTableStatic "sections regExpEntryBytes h"
          "length bytes" sizeof_BytecodeFileHeader r0]
      by (simp add: res null)
    ultimately show ?thesis ..
  qed
  have one: "(ar_data (cjsModuleTable (outFields res)) = None) \<noteq>
             (ar_data (cjsModuleTableStatic (outFields res)) = None)"
  proof (cases "c < 0")
    case True
    with neg show ?thesis
      by (auto simp add: nullArrayRef_def)
  next
    case False
    then have "0 \<le> c" by simp
    with pos show ?thesis
      by (auto simp add: nullArrayRef_def)
  qed
  from neg pos one show ?thesis
    unfolding Let_def res_def [symmetric] h_def [symmetric] c_def [symmetric] by blast
qed

theorem populateFromBuffer_module_table_by_sign_witness:
  "cjsModuleTableStatic (outFields (populateFromBuffer 8 resolvedFile Execution))
     = \<lparr>ar_data = Some 112, ar_size = 1\<rparr> \<and>
   cjsModuleTable (outFields (populateFromBuffer 8 resolvedFile Execution)) = nullArrayRef \<and>
   cjsModuleTable (outFields (populateFromBuffer 8 unresolvedFile Execution))
     = \<lparr>ar_data = Some 112, ar_size = 2\<rparr> \<and>
   cjsModuleTableStatic (outFields (populateFromBuffer 8 unresolvedFile Execution)) = nullArrayRef"
proof -
  have ok: "outError (populateFromBuffer 8 resolvedFile Execution) = None"
    "outError (populateFromBuffer 8 unresolvedFile Execution) = None"
    by code_simp+
  have c: "sint (bfh_cjsModuleCount (readHeader resolvedFile)) = - 1"
    "sint (bfh_cjsModuleCount (readHeader unresolvedFile)) = 2"
    by code_simp+
  have e: "last (extents (populateFromBuffer 8 resolvedFile Execution)) = (112, 4)"
    "last (extents (populateFromBuffer 8 unresolvedFile Execution)) = (112, 16)"
    by code_simp+
  from populateFromBuffer_module_table_by_sign [OF ok(1)] populateFromBuffer_module_table_by_sign [OF ok(2)] show ?thesis
    by (auto simp add: Let_def c e)
qed

end
